theory Spec2Isabelle
  imports Main
begin

section \<open>Python values, errors and strings\<close>

text \<open>
  The values the modelled functions receive and store. Python is dynamically typed, so an
  argument or an attribute holds any of these; \<open>PObj\<close> stands for any other object (a
  datetime, a backend instance), known only by its identity. Exceptions are values of
  \<open>error\<close>; only the exception class is kept, the message is dropped.
\<close>

datatype pyval = PNone | PBool bool | PInt int | PStr string | PObj nat

datatype error = ValueError | TypeError | AttributeError | NotImplementedError
  | FrameworkError string

text \<open>Truth value testing (\<^verbatim>\<open>if not username\<close>, \<^verbatim>\<open>email or ''\<close>).\<close>

fun py_truthy :: "pyval \<Rightarrow> bool" where
  "py_truthy PNone = False"
| "py_truthy (PBool b) = b"
| "py_truthy (PInt n) = (n \<noteq> 0)"
| "py_truthy (PStr s) = (s \<noteq> [])"
| "py_truthy (PObj a) = True"

text \<open>
  \<^verbatim>\<open>str.strip()\<close>, \<^verbatim>\<open>str.lower()\<close> and \<^verbatim>\<open>str.rsplit(sep, 1)\<close> on ASCII text: a
  \<open>char\<close> is one code point below 128. \<open>rsplit1\<close> returns the list Python returns: two
  parts, cut at the last separator, or the whole string alone when it has no separator.
\<close>

definition isspace :: "char \<Rightarrow> bool" where
  "isspace c = (of_char c \<in> set [9, 10, 11, 12, 13, 28, 29, 30, 31, 32 :: nat])"

definition strip :: "string \<Rightarrow> string" where
  "strip s = rev (dropWhile isspace (rev (dropWhile isspace s)))"

definition lower_char :: "char \<Rightarrow> char" where
  "lower_char c =
     (let n = (of_char c :: nat) in if 65 \<le> n \<and> n \<le> 90 then char_of (n + 32) else c)"

definition lower :: "string \<Rightarrow> string" where
  "lower s = map lower_char s"

definition rsplit1 :: "char \<Rightarrow> string \<Rightarrow> string list" where
  "rsplit1 sep s =
     (if sep \<in> set s
      then [rev (tl (dropWhile (\<lambda>c. c \<noteq> sep) (rev s))),
            rev (takeWhile (\<lambda>c. c \<noteq> sep) (rev s))]
      else [s])"

section \<open>The User model\<close>

text \<open>
  \<^verbatim>\<open>class User(AbstractBaseUser)\<close>: the fields the class declares (\<open>username\<close> to
  \<open>date_joined\<close>), the two it inherits from \<^verbatim>\<open>AbstractBaseUser\<close> (\<open>password\<close>,
  \<open>last_login\<close>) and the primary key \<^verbatim>\<open>id\<close> (here \<open>pk\<close>). An attribute holds
  whatever value it was given.
\<close>

record user =
  pk :: pyval
  password :: pyval
  last_login :: pyval
  username :: pyval
  first_name :: pyval
  last_name :: pyval
  email :: pyval
  is_staff :: pyval
  is_superuser :: pyval
  is_active :: pyval
  date_joined :: pyval

definition field_names :: "string list" where
  "field_names = [''id'', ''password'', ''last_login'', ''username'', ''first_name'',
     ''last_name'', ''email'', ''is_staff'', ''is_superuser'', ''is_active'', ''date_joined'']"

text \<open>A field of a record by its name; \<open>None\<close> when the model has no field of that name.\<close>

definition user_field :: "user \<Rightarrow> string \<Rightarrow> pyval option" where
  "user_field u name =
     map_of [(''id'', pk u), (''password'', password u), (''last_login'', last_login u),
       (''username'', username u), (''first_name'', first_name u),
       (''last_name'', last_name u), (''email'', email u), (''is_staff'', is_staff u),
       (''is_superuser'', is_superuser u), (''is_active'', is_active u),
       (''date_joined'', date_joined u)] name"

text \<open>
  Keyword arguments (\<^verbatim>\<open>**extra_fields\<close>) are a dict, kept in insertion order.
  \<open>setdefault\<close> is \<^verbatim>\<open>dict.setdefault\<close>: a key that is present keeps its value,
  whatever it is.
\<close>

type_synonym kwargs = "(string \<times> pyval) list"

definition setdefault :: "kwargs \<Rightarrow> string \<Rightarrow> pyval \<Rightarrow> kwargs" where
  "setdefault d k v = (case map_of d k of None \<Rightarrow> d @ [(k, v)] | Some _ \<Rightarrow> d)"

definition kwarg :: "kwargs \<Rightarrow> string \<Rightarrow> pyval \<Rightarrow> pyval" where
  "kwarg d k dflt = (case map_of d k of None \<Rightarrow> dflt | Some v \<Rightarrow> v)"

text \<open>
  The parts of the framework the manager calls and this repository does not define:
  \<open>nfkc\<close> is \<^verbatim>\<open>unicodedata.normalize('NFKC', _)\<close>, \<open>make_password\<close> the password
  hasher, \<open>now\<close> what \<^verbatim>\<open>timezone.now()\<close> returns, and \<open>save\<close> is \<^verbatim>\<open>Model.save\<close> on a
  persistence layer of state \<open>'db\<close>: it returns the instance as saved and the new state,
  or the error it raises. They are parameters: every theorem holds for each of them.
\<close>

record 'db framework =
  nfkc :: "string \<Rightarrow> string"
  make_password :: "pyval \<Rightarrow> pyval"
  now :: pyval
  save :: "user \<Rightarrow> 'db \<Rightarrow> (error + user) \<times> 'db"

text \<open>
  Modelled from the spec: the constructor of a model class is the framework's, not this
  repository's. \<^verbatim>\<open>User(**kwargs)\<close>: a field takes the keyword's value when the keyword is given and
  the default its declaration names otherwise (\<^verbatim>\<open>default=False\<close>, \<^verbatim>\<open>default=True\<close>,
  \<^verbatim>\<open>default=timezone.now\<close>, the empty string for a text field, None for \<^verbatim>\<open>id\<close> and
  \<^verbatim>\<open>last_login\<close>); \<^verbatim>\<open>pk\<close> is another name of \<^verbatim>\<open>id\<close>; a keyword that names no
  field raises TypeError.
\<close>

definition User_init :: "pyval \<Rightarrow> kwargs \<Rightarrow> error + user" where
  "User_init current_time kw =
     (if list_all (\<lambda>(k, v). k \<in> set (''pk'' # field_names)) kw
      then Inr \<lparr> pk = kwarg kw ''pk'' (kwarg kw ''id'' PNone),
                 password = kwarg kw ''password'' (PStr []),
                 last_login = kwarg kw ''last_login'' PNone,
                 username = kwarg kw ''username'' (PStr []),
                 first_name = kwarg kw ''first_name'' (PStr []),
                 last_name = kwarg kw ''last_name'' (PStr []),
                 email = kwarg kw ''email'' (PStr []),
                 is_staff = kwarg kw ''is_staff'' (PBool False),
                 is_superuser = kwarg kw ''is_superuser'' (PBool False),
                 is_active = kwarg kw ''is_active'' (PBool True),
                 date_joined = kwarg kw ''date_joined'' current_time \<rparr>
      else Inl TypeError)"

text \<open>
  Modelled from the spec: \<^verbatim>\<open>AbstractBaseUser.set_password\<close> is the framework's; it
  hashes the password before persisting: the password attribute becomes the hash.
\<close>

definition set_password :: "'db framework \<Rightarrow> pyval \<Rightarrow> user \<Rightarrow> user" where
  "set_password fw raw_password u = u\<lparr>password := make_password fw raw_password\<rparr>"

section \<open>UserManager\<close>

text \<open>
  Modelled from the spec: \<^verbatim>\<open>BaseUserManager.normalize_email\<close> is the framework's; it
  lower-cases the domain portion of the email:
  \<^verbatim>\<open>email = email or ''\<close>, then
  \<^verbatim>\<open>email_name, domain_part = email.strip().rsplit('@', 1)\<close> and
  \<^verbatim>\<open>email = email_name + '@' + domain_part.lower()\<close>, the email staying as it is when
  the unpacking raises ValueError. A true value that is not a string has no
  \<^verbatim>\<open>strip\<close>: AttributeError.
\<close>

definition normalize_email :: "pyval \<Rightarrow> error + pyval" where
  "normalize_email mail =
     (case (if py_truthy mail then mail else PStr []) of
        PStr s \<Rightarrow>
          (case rsplit1 CHR ''@'' (strip s) of
             [email_name, domain_part] \<Rightarrow> Inr (PStr (email_name @ ''@'' @ lower domain_part))
           | _ \<Rightarrow> Inr (PStr s))
      | _ \<Rightarrow> Inl AttributeError)"

text \<open>
  Modelled from the spec: \<^verbatim>\<open>AbstractBaseUser.normalize_username\<close> is the framework's;
  it is Unicode normalization (NFKC) on a string, and leaves any other value unchanged.
\<close>

definition normalize_username :: "(string \<Rightarrow> string) \<Rightarrow> pyval \<Rightarrow> pyval" where
  "normalize_username norm uname = (case uname of PStr s \<Rightarrow> PStr (norm s) | _ \<Rightarrow> uname)"

text \<open>
  \<^verbatim>\<open>UserManager._create_user\<close>. Every function of the manager takes the state of the
  persistence layer and returns it with its result; a function that raises before
  \<^verbatim>\<open>user.save\<close> returns the state it was given. The call
  \<^verbatim>\<open>self.model(username=username, email=email, **extra_fields)\<close> raises TypeError when
  \<open>extra_fields\<close> repeats one of the two keywords.
\<close>

definition private_create_user ::
  "'db framework \<Rightarrow> pyval \<Rightarrow> pyval \<Rightarrow> pyval \<Rightarrow> kwargs \<Rightarrow> 'db \<Rightarrow> (error + user) \<times> 'db" where
  "private_create_user fw uname mail raw_password extra_fields db =
     (if \<not> py_truthy uname then (Inl ValueError, db)
      else case normalize_email mail of
        Inl e \<Rightarrow> (Inl e, db)
      | Inr mail' \<Rightarrow>
          (if map_of extra_fields ''username'' \<noteq> None \<or> map_of extra_fields ''email'' \<noteq> None
           then (Inl TypeError, db)
           else case User_init (now fw)
                    ((''username'', normalize_username (nfkc fw) uname) # (''email'', mail')
                       # extra_fields) of
             Inl e \<Rightarrow> (Inl e, db)
           | Inr u \<Rightarrow> save fw (set_password fw raw_password u) db))"

definition create_user ::
  "'db framework \<Rightarrow> pyval \<Rightarrow> pyval \<Rightarrow> pyval \<Rightarrow> kwargs \<Rightarrow> 'db \<Rightarrow> (error + user) \<times> 'db" where
  "create_user fw uname mail raw_password extra_fields db =
     (let extra_fields = setdefault extra_fields ''is_staff'' (PBool False);
          extra_fields = setdefault extra_fields ''is_superuser'' (PBool False)
      in private_create_user fw uname mail raw_password extra_fields db)"

text \<open>\<^verbatim>\<open>x is not True\<close> holds of every value but the boolean True itself.\<close>

definition create_superuser ::
  "'db framework \<Rightarrow> pyval \<Rightarrow> pyval \<Rightarrow> pyval \<Rightarrow> kwargs \<Rightarrow> 'db \<Rightarrow> (error + user) \<times> 'db" where
  "create_superuser fw uname mail raw_password extra_fields db =
     (let extra_fields = setdefault extra_fields ''is_staff'' (PBool True);
          extra_fields = setdefault extra_fields ''is_superuser'' (PBool True)
      in if map_of extra_fields ''is_staff'' \<noteq> Some (PBool True) then (Inl ValueError, db)
         else if map_of extra_fields ''is_superuser'' \<noteq> Some (PBool True)
           then (Inl ValueError, db)
         else private_create_user fw uname mail raw_password extra_fields db)"

text \<open>
  An authentication backend: \<open>with_perm_attr\<close> is its \<^verbatim>\<open>with_perm\<close> method, \<open>None\<close>
  when the backend has no such attribute. A result set is the list of its rows.
  \<open>get_backends\<close> is what \<^verbatim>\<open>_get_backends(return_tuples=True)\<close> returns (the configured
  backends, each with its import path) or raises, and \<open>load_backend\<close> is the function of
  that name; both live in \<^verbatim>\<open>djangae.contrib.googleauth\<close> and are parameters here.
\<close>

record backend =
  backend_name :: string
  with_perm_attr :: "(pyval \<Rightarrow> pyval \<Rightarrow> pyval \<Rightarrow> pyval \<Rightarrow> error + user list) option"

record registry =
  get_backends :: "error + (backend \<times> string) list"
  load_backend :: "string \<Rightarrow> error + backend"

text \<open>
  \<^verbatim>\<open>UserManager.with_perm(perm, is_active, include_superusers, backend, obj)\<close>;
  \<^verbatim>\<open>self.none()\<close> is the empty result set.
\<close>

definition with_perm ::
  "registry \<Rightarrow> pyval \<Rightarrow> pyval \<Rightarrow> pyval \<Rightarrow> pyval \<Rightarrow> pyval \<Rightarrow> error + user list" where
  "with_perm reg perm active include_superusers backend_arg obj =
     (case (case backend_arg of
              PNone \<Rightarrow>
                (case get_backends reg of
                   Inl e \<Rightarrow> Inl e
                 | Inr backends \<Rightarrow>
                     if length backends = 1 then Inr (fst (backends ! 0)) else Inl ValueError)
            | PStr path \<Rightarrow> load_backend reg path
            | _ \<Rightarrow> Inl TypeError) of
        Inl e \<Rightarrow> Inl e
      | Inr b \<Rightarrow>
          (case with_perm_attr b of
             Some f \<Rightarrow> f perm active include_superusers obj
           | None \<Rightarrow> Inr []))"




section \<open>AnonymousUser\<close>

text \<open>
  \<^verbatim>\<open>class AnonymousUser\<close> has no instance attribute: an instance is its identity alone.
  \<open>pyobject\<close> is what the other operand of \<^verbatim>\<open>==\<close> may be: an anonymous user, a
  user record, or a plain value.
\<close>

datatype AnonymousUser = AnonymousUser nat

datatype pyobject = Anonymous AnonymousUser | Stored user | Plain pyval

text \<open>\<^verbatim>\<open>__eq__\<close>: \<^verbatim>\<open>isinstance(other, self.__class__)\<close>.\<close>

definition anon_eq :: "AnonymousUser \<Rightarrow> pyobject \<Rightarrow> bool" where
  "anon_eq self other = (case other of Anonymous _ \<Rightarrow> True | _ \<Rightarrow> False)"

text \<open>\<^verbatim>\<open>__hash__\<close>: \<^verbatim>\<open>return 1\<close>.\<close>

definition anon_hash :: "AnonymousUser \<Rightarrow> int" where
  "anon_hash self = 1"

text \<open>\<^verbatim>\<open>__int__\<close>: \<^verbatim>\<open>raise TypeError(...)\<close>.\<close>

definition anon_int :: "AnonymousUser \<Rightarrow> error + int" where
  "anon_int self = Inl TypeError"

definition has_perm :: "AnonymousUser \<Rightarrow> pyval \<Rightarrow> pyval \<Rightarrow> bool" where
  "has_perm self perm obj = False"

text \<open>\<^verbatim>\<open>all(self.has_perm(perm, obj) for perm in perm_list)\<close>.\<close>

definition has_perms :: "AnonymousUser \<Rightarrow> pyval list \<Rightarrow> pyval \<Rightarrow> bool" where
  "has_perms self perm_list obj = list_all (\<lambda>perm. has_perm self perm obj) perm_list"

definition has_module_perms :: "AnonymousUser \<Rightarrow> pyval \<Rightarrow> bool" where
  "has_module_perms self module = False"

section \<open>OAuthUserSession\<close>

record OAuthUserSession =
  session_user :: pyval
  authorization_code :: string
  access_token :: string
  refresh_token :: string
  id_token :: string
  token_type :: string
  expires_at :: string
  expires_in :: string
  scopes :: "string list"
  token :: pyval

text \<open>\<^verbatim>\<open>def is_valid(self): pass\<close>: the body does nothing and the call returns None.\<close>

definition is_valid :: "OAuthUserSession \<Rightarrow> pyval" where
  "is_valid self = PNone"

section \<open>A persistence layer to run the manager on\<close>

text \<open>
  A table in memory, for concrete runs: \<open>table_save\<close> refuses a username that a stored
  row has (the column is declared \<^verbatim>\<open>unique=True\<close>), and otherwise gives the row the
  next key when it has none and appends it. The hasher of \<open>table_framework\<close> returns a
  fixed string and its NFKC changes nothing. \<open>alice_row\<close> is a row of that table.
  \<open>import_fails\<close> and \<open>plain_backend\<close> are two \<^verbatim>\<open>load_backend\<close> functions: one
  that finds no module, and one that returns a backend without \<^verbatim>\<open>with_perm\<close>.
\<close>

definition table_save :: "user \<Rightarrow> user list \<Rightarrow> (error + user) \<times> user list" where
  "table_save u rows =
     (if username u \<in> set (map username rows)
      then (Inl (FrameworkError ''IntegrityError''), rows)
      else let u' = (if pk u = PNone then u\<lparr>pk := PInt (int (length rows) + 1)\<rparr> else u)
           in (Inr u', rows @ [u']))"

definition alice_row :: user where
  "alice_row = \<lparr> pk = PInt 1, password = PStr ''pbkdf2'', last_login = PNone,
     username = PStr ''alice'', first_name = PStr [], last_name = PStr [],
     email = PStr ''Alice@example.com'', is_staff = PBool False, is_superuser = PBool False,
     is_active = PBool True, date_joined = PObj 0 \<rparr>"

definition table_framework :: "user list framework" where
  "table_framework =
     \<lparr> nfkc = (\<lambda>s. s), make_password = (\<lambda>raw. PStr ''pbkdf2''), now = PObj 0,
       save = table_save \<rparr>"



section \<open>Keyword arguments and construction\<close>

lemma map_of_setdefault:
  "map_of (setdefault d k v) k' =
     (case map_of d k' of Some x \<Rightarrow> Some x | None \<Rightarrow> if k' = k then Some v else None)"
  by (auto simp: setdefault_def map_add_def split: option.splits)

lemma kwarg_setdefault:
  "kwarg (setdefault d k v) k' dflt = (if k' = k then kwarg d k v else kwarg d k' dflt)"
  by (simp add: kwarg_def map_of_setdefault split: option.splits)

lemma kwarg_Cons:
  "kwarg ((k, v) # d) k' dflt = (if k' = k then v else kwarg d k' dflt)"
  by (simp add: kwarg_def)

lemma User_init_fields:
  assumes "User_init t kw = Inr u"
  shows "is_staff u = kwarg kw ''is_staff'' (PBool False)"
    and "is_superuser u = kwarg kw ''is_superuser'' (PBool False)"
    and "email u = kwarg kw ''email'' (PStr [])"
  using assms by (auto simp: User_init_def split: if_splits)

lemma set_password_fields:
  "is_staff (set_password fw p u) = is_staff u"
  "is_superuser (set_password fw p u) = is_superuser u"
  "email (set_password fw p u) = email u"
  by (simp_all add: set_password_def)

lemma user_field_email_lower: "user_field u ''email_lower'' = None"
  by (simp add: user_field_def)

text \<open>
  \<open>rsplit1\<close> cuts at the last separator, so \<open>normalize_email\<close> keeps the part before the
  last \<^verbatim>\<open>@\<close> of the stripped string and lower-cases the part after it.
\<close>

lemma rsplit1_last:
  assumes "sep \<notin> set domain"
  shows "rsplit1 sep (name @ sep # domain) = [name, domain]"
proof -
  let ?P = "\<lambda>c. c \<noteq> sep"
  have all: "\<And>c. c \<in> set (rev domain) \<Longrightarrow> ?P c"
    using assms by auto
  have "takeWhile ?P (rev domain @ sep # rev name) = rev domain @ takeWhile ?P (sep # rev name)"
    by (rule takeWhile_append2) (rule all)
  then have tw: "takeWhile ?P (rev (name @ sep # domain)) = rev domain"
    by simp
  have "dropWhile ?P (rev domain @ sep # rev name) = dropWhile ?P (sep # rev name)"
    by (rule dropWhile_append2) (rule all)
  then have dw: "dropWhile ?P (rev (name @ sep # domain)) = sep # rev name"
    by simp
  show ?thesis
    unfolding rsplit1_def tw dw by simp
qed

lemma normalize_email_domain:
  assumes "strip s = name @ CHR ''@'' # domain" and "CHR ''@'' \<notin> set domain"
  shows "normalize_email (PStr s) = Inr (PStr (name @ CHR ''@'' # lower domain))"
proof -
  from assms(1) have "strip s \<noteq> []" by simp
  then have "s \<noteq> []" by (auto simp: strip_def)
  then show ?thesis
    using assms by (simp add: normalize_email_def rsplit1_last)
qed

lemma normalize_alice:
  "normalize_email (PStr ''Alice@EXAMPLE.com'') = Inr (PStr ''Alice@example.com'')"
proof -
  have "strip ''Alice@EXAMPLE.com'' = ''Alice'' @ CHR ''@'' # ''EXAMPLE.com''"
    by code_simp
  moreover have "lower ''EXAMPLE.com'' = ''example.com''"
    by code_simp
  ultimately show ?thesis
    using normalize_email_domain [of "''Alice@EXAMPLE.com''" "''Alice''" "''EXAMPLE.com''"]
    by simp
qed


section \<open>What \<open>_create_user\<close> does\<close>

text \<open>
  Every run of \<open>private_create_user\<close> either raises before \<^verbatim>\<open>user.save\<close>, leaving the
  state as it was, or is the run of \<open>save\<close> on a record whose flags are the keyword
  arguments' (False when absent) and whose email is the normalized one.
\<close>

lemma private_create_user_outcome:
  "(\<exists>e. private_create_user fw un em pw extra db = (Inl e, db)) \<or>
   (\<exists>u m. normalize_email em = Inr m \<and> py_truthy un \<and>
      is_staff u = kwarg extra ''is_staff'' (PBool False) \<and>
      is_superuser u = kwarg extra ''is_superuser'' (PBool False) \<and>
      email u = m \<and>
      private_create_user fw un em pw extra db = save fw u db)"
proof (cases "py_truthy un")
  case False
  then show ?thesis by (simp add: private_create_user_def)
next
  case truthy: True
  show ?thesis
  proof (cases "normalize_email em")
    case (Inl e)
    with truthy show ?thesis by (simp add: private_create_user_def)
  next
    case (Inr m)
    let ?kw = "(''username'', normalize_username (nfkc fw) un) # (''email'', m) # extra"
    show ?thesis
    proof (cases "map_of extra ''username'' \<noteq> None \<or> map_of extra ''email'' \<noteq> None")
      case True
      with truthy Inr show ?thesis by (simp add: private_create_user_def)
    next
      case nodup: False
      show ?thesis
      proof (cases "User_init (now fw) ?kw")
        case (Inl e)
        with truthy Inr nodup show ?thesis by (simp add: private_create_user_def)
      next
        case built: (Inr u0)
        have run: "private_create_user fw un em pw extra db = save fw (set_password fw pw u0) db"
          using truthy Inr nodup built by (simp add: private_create_user_def)
        have "is_staff (set_password fw pw u0) = kwarg extra ''is_staff'' (PBool False)"
          and "is_superuser (set_password fw pw u0) = kwarg extra ''is_superuser'' (PBool False)"
          and "email (set_password fw pw u0) = m"
          using User_init_fields [OF built] by (simp_all add: set_password_fields kwarg_Cons)
        with run Inr truthy show ?thesis by blast
      qed
    qed
  qed
qed

text \<open>
  A call with a true username, an email that normalizes and keywords that name fields of
  the model (other than the two passed by name) reaches \<^verbatim>\<open>user.save\<close>.
\<close>

lemma private_create_user_reaches_save:
  assumes "py_truthy un" and "normalize_email em = Inr m"
    and "\<forall>k \<in> fst ` set extra.
           k \<in> set (''pk'' # field_names) \<and> k \<noteq> ''username'' \<and> k \<noteq> ''email''"
  shows "\<exists>u. is_staff u = kwarg extra ''is_staff'' (PBool False) \<and>
      is_superuser u = kwarg extra ''is_superuser'' (PBool False) \<and>
      email u = m \<and>
      private_create_user fw un em pw extra db = save fw u db"
proof -
  let ?kw = "(''username'', normalize_username (nfkc fw) un) # (''email'', m) # extra"
  have nodup: "map_of extra ''username'' = None" "map_of extra ''email'' = None"
    using assms(3) by (auto simp: map_of_eq_None_iff)
  have "list_all (\<lambda>(k, v). k \<in> set (''pk'' # field_names)) ?kw"
    using assms(3) by (auto simp: list_all_iff field_names_def)
  then obtain u0 where built: "User_init (now fw) ?kw = Inr u0"
    by (simp add: User_init_def)
  have run: "private_create_user fw un em pw extra db = save fw (set_password fw pw u0) db"
    using assms(1,2) nodup built by (simp add: private_create_user_def)
  have "is_staff (set_password fw pw u0) = kwarg extra ''is_staff'' (PBool False)"
    and "is_superuser (set_password fw pw u0) = kwarg extra ''is_superuser'' (PBool False)"
    and "email (set_password fw pw u0) = m"
    using User_init_fields [OF built] by (simp_all add: set_password_fields kwarg_Cons)
  with run show ?thesis by blast
qed

section \<open>Creating users\<close>

text \<open>
  C1: a call of \<open>create_superuser\<close> that passes \<^verbatim>\<open>is_staff\<close> or \<^verbatim>\<open>is_superuser\<close> with a
  value other than True (so also \<^verbatim>\<open>is_staff=False\<close>) raises ValueError and leaves the
  state of the persistence layer as it was, whatever \<open>save\<close> does: nothing was saved.
  A call whose flags are absent or True, with a true username, an email that normalizes
  and keywords that name fields of the model, is the run of \<open>save\<close> on a record with
  \<^verbatim>\<open>is_staff == is_superuser == True\<close>. And every call either raises before saving, the
  state unchanged, or is the run of \<open>save\<close> on a record with both flags True.
\<close>

theorem create_superuser_flags:
  "((\<exists>v. (map_of extra ''is_staff'' = Some v \<or> map_of extra ''is_superuser'' = Some v)
        \<and> v \<noteq> PBool True)
     \<longrightarrow> create_superuser fw un em pw extra db = (Inl ValueError, db)) \<and>
   ((map_of extra ''is_staff'' = None \<or> map_of extra ''is_staff'' = Some (PBool True)) \<and>
    (map_of extra ''is_superuser'' = None \<or> map_of extra ''is_superuser'' = Some (PBool True)) \<and>
    py_truthy un \<and> normalize_email em = Inr m \<and>
    (\<forall>k \<in> fst ` set extra.
        k \<in> set (''pk'' # field_names) \<and> k \<noteq> ''username'' \<and> k \<noteq> ''email'')
     \<longrightarrow> (\<exists>u. is_staff u = PBool True \<and> is_superuser u = PBool True \<and> email u = m \<and>
            create_superuser fw un em pw extra db = save fw u db)) \<and>
   ((\<exists>e. create_superuser fw un em pw extra db = (Inl e, db)) \<or>
    (\<exists>u. is_staff u = PBool True \<and> is_superuser u = PBool True \<and>
       create_superuser fw un em pw extra db = save fw u db))"
proof -
  let ?extra =
    "setdefault (setdefault extra ''is_staff'' (PBool True)) ''is_superuser'' (PBool True)"
  have rejects: "create_superuser fw un em pw extra db = (Inl ValueError, db)"
    if "\<exists>v. (map_of extra ''is_staff'' = Some v \<or> map_of extra ''is_superuser'' = Some v)
        \<and> v \<noteq> PBool True"
    using that
    by (auto simp: create_superuser_def Let_def map_of_setdefault split: option.splits)
  have runs: "create_superuser fw un em pw extra db = private_create_user fw un em pw ?extra db"
      "kwarg ?extra ''is_staff'' (PBool False) = PBool True"
      "kwarg ?extra ''is_superuser'' (PBool False) = PBool True"
    if "map_of ?extra ''is_staff'' = Some (PBool True)
      \<and> map_of ?extra ''is_superuser'' = Some (PBool True)"
    using that by (simp_all add: create_superuser_def Let_def kwarg_def)
  have saves: "\<exists>u. is_staff u = PBool True \<and> is_superuser u = PBool True \<and> email u = m \<and>
            create_superuser fw un em pw extra db = save fw u db"
    if flags: "map_of extra ''is_staff'' = None \<or> map_of extra ''is_staff'' = Some (PBool True)"
         "map_of extra ''is_superuser'' = None \<or> map_of extra ''is_superuser'' = Some (PBool True)"
      and wf: "py_truthy un" "normalize_email em = Inr m"
      and keys: "\<forall>k \<in> fst ` set extra.
        k \<in> set (''pk'' # field_names) \<and> k \<noteq> ''username'' \<and> k \<noteq> ''email''"
  proof -
    have keys': "\<forall>k \<in> fst ` set ?extra.
        k \<in> set (''pk'' # field_names) \<and> k \<noteq> ''username'' \<and> k \<noteq> ''email''"
      using keys by (auto simp: setdefault_def field_names_def split: option.splits)
    have "map_of ?extra ''is_staff'' = Some (PBool True)
      \<and> map_of ?extra ''is_superuser'' = Some (PBool True)"
      using flags by (auto simp: map_of_setdefault)
    from runs [OF this] private_create_user_reaches_save [OF wf keys', of fw pw db]
    show ?thesis by auto
  qed
  have either: "(\<exists>e. create_superuser fw un em pw extra db = (Inl e, db)) \<or>
    (\<exists>u. is_staff u = PBool True \<and> is_superuser u = PBool True \<and>
       create_superuser fw un em pw extra db = save fw u db)"
  proof (cases "map_of ?extra ''is_staff'' = Some (PBool True)
      \<and> map_of ?extra ''is_superuser'' = Some (PBool True)")
    case False
    then show ?thesis by (auto simp: create_superuser_def Let_def)
  next
    case True
    from runs [OF True] private_create_user_outcome [of fw un em pw ?extra db]
    show ?thesis by auto
  qed
  from rejects saves either show ?thesis by blast
qed

text \<open>
  On the table that holds \<open>alice_row\<close>: \<^verbatim>\<open>is_staff=False\<close> raises and the table is
  unchanged; a call that passes \<^verbatim>\<open>is_staff=True\<close> and a first name appends a row with
  both flags True.
\<close>

theorem create_superuser_flags_witness:
  "create_superuser table_framework (PStr ''root'') PNone PNone
       [(''is_staff'', PBool False)] [alice_row]
     = (Inl ValueError, [alice_row]) \<and>
   (\<exists>u. is_staff u = PBool True \<and> is_superuser u = PBool True \<and> email u = PStr [] \<and>
      create_superuser table_framework (PStr ''root'') PNone PNone
        [(''is_staff'', PBool True), (''first_name'', PStr ''R'')] [alice_row]
      = table_save u [alice_row]) \<and>
   map is_staff (snd (create_superuser table_framework (PStr ''root'') PNone PNone
        [(''is_staff'', PBool True), (''first_name'', PStr ''R'')] [alice_row]))
     = [PBool False, PBool True] \<and>
   map is_superuser (snd (create_superuser table_framework (PStr ''root'') PNone PNone
        [(''is_staff'', PBool True), (''first_name'', PStr ''R'')] [alice_row]))
     = [PBool False, PBool True]"
proof -
  have n: "normalize_email PNone = Inr (PStr [])" by code_simp
  have a: "create_superuser table_framework (PStr ''root'') PNone PNone
       [(''is_staff'', PBool False)] [alice_row]
     = (Inl ValueError, [alice_row])"
    using create_superuser_flags [where extra = "[(''is_staff'', PBool False)]"
        and fw = table_framework and un = "PStr ''root''" and em = PNone and pw = PNone
        and db = "[alice_row]"]
    by simp
  have b: "\<exists>u. is_staff u = PBool True \<and> is_superuser u = PBool True \<and> email u = PStr [] \<and>
      create_superuser table_framework (PStr ''root'') PNone PNone
        [(''is_staff'', PBool True), (''first_name'', PStr ''R'')] [alice_row]
      = table_save u [alice_row]"
    using n create_superuser_flags
        [where extra = "[(''is_staff'', PBool True), (''first_name'', PStr ''R'')]"
        and fw = table_framework and un = "PStr ''root''" and em = PNone and pw = PNone
        and db = "[alice_row]" and m = "PStr []"]
    by (simp add: field_names_def table_framework_def)
  have c: "map is_staff (snd (create_superuser table_framework (PStr ''root'') PNone PNone
        [(''is_staff'', PBool True), (''first_name'', PStr ''R'')] [alice_row]))
     = [PBool False, PBool True]"
    by code_simp
  have d: "map is_superuser (snd (create_superuser table_framework (PStr ''root'') PNone PNone
        [(''is_staff'', PBool True), (''first_name'', PStr ''R'')] [alice_row]))
     = [PBool False, PBool True]"
    by code_simp
  from a b c d show ?thesis by simp
qed

text \<open>
  C6: \<open>create_user\<close> and \<open>create_superuser\<close> with an empty username (any username that
  is false: the empty string, None) raise ValueError, and the state of the persistence
  layer is the one they were given.
\<close>

theorem create_rejects_empty_username:
  "\<not> py_truthy un \<Longrightarrow>
     create_user fw un em pw extra db = (Inl ValueError, db) \<and>
     create_superuser fw un em pw extra db = (Inl ValueError, db)"
  by (simp add: create_user_def create_superuser_def private_create_user_def Let_def)

theorem create_rejects_empty_username_witness:
  "\<not> py_truthy (PStr []) \<and>
   create_user table_framework (PStr []) (PStr ''a@b.c'') (PStr ''secret'') [] [alice_row]
     = (Inl ValueError, [alice_row]) \<and>
   create_superuser table_framework (PStr []) (PStr ''a@b.c'') (PStr ''secret'') []
       [alice_row]
     = (Inl ValueError, [alice_row])"
  using create_rejects_empty_username [of "PStr []" table_framework "PStr ''a@b.c''"
      "PStr ''secret''" "[]" "[alice_row]"]
  by simp

text \<open>
  C10: \<open>create_user\<close> neither rejects nor overrides the flags it is given. A call with
  a true username, an email that normalizes and keywords that name fields of the model
  is the run of \<open>save\<close> on a record whose \<^verbatim>\<open>is_staff\<close> and \<^verbatim>\<open>is_superuser\<close> are the values
  passed (so True when True is passed), and False only for a flag that is absent.
\<close>

theorem create_user_keeps_flags:
  assumes "py_truthy un" and "normalize_email em = Inr m"
    and "\<forall>k \<in> fst ` set extra.
           k \<in> set (''pk'' # field_names) \<and> k \<noteq> ''username'' \<and> k \<noteq> ''email''"
  shows "\<exists>u. is_staff u = kwarg extra ''is_staff'' (PBool False) \<and>
      is_superuser u = kwarg extra ''is_superuser'' (PBool False) \<and>
      create_user fw un em pw extra db = save fw u db"
proof -
  let ?extra =
    "setdefault (setdefault extra ''is_staff'' (PBool False)) ''is_superuser'' (PBool False)"
  have keys: "\<forall>k \<in> fst ` set ?extra.
      k \<in> set (''pk'' # field_names) \<and> k \<noteq> ''username'' \<and> k \<noteq> ''email''"
    using assms(3) by (auto simp: setdefault_def field_names_def split: option.splits)
  have run: "create_user fw un em pw extra db = private_create_user fw un em pw ?extra db"
    by (simp add: create_user_def Let_def)
  have "kwarg ?extra ''is_staff'' (PBool False) = kwarg extra ''is_staff'' (PBool False)"
    and "kwarg ?extra ''is_superuser'' (PBool False)
           = kwarg extra ''is_superuser'' (PBool False)"
    by (simp_all add: kwarg_setdefault)
  with private_create_user_reaches_save [OF assms(1,2) keys, of fw pw db] run show ?thesis
    by auto
qed

theorem create_user_keeps_flags_witness:
  "py_truthy (PStr ''bob'') \<and> normalize_email PNone = Inr (PStr []) \<and>
   (\<exists>u. is_staff u = PBool True \<and> is_superuser u = PBool True \<and>
      create_user table_framework (PStr ''bob'') PNone PNone
        [(''is_staff'', PBool True), (''is_superuser'', PBool True)] [alice_row]
      = table_save u [alice_row]) \<and>
   map is_staff (snd (create_user table_framework (PStr ''bob'') PNone PNone
        [(''is_staff'', PBool True), (''is_superuser'', PBool True)] [alice_row]))
     = [PBool False, PBool True] \<and>
   map is_superuser (snd (create_user table_framework (PStr ''bob'') PNone PNone
        [(''is_staff'', PBool True), (''is_superuser'', PBool True)] [alice_row]))
     = [PBool False, PBool True]"
proof -
  have t: "py_truthy (PStr ''bob'')" by simp
  have n: "normalize_email PNone = Inr (PStr [])" by code_simp
  have k: "\<forall>k \<in> fst ` set [(''is_staff'', PBool True), (''is_superuser'', PBool True)].
      k \<in> set (''pk'' # field_names) \<and> k \<noteq> ''username'' \<and> k \<noteq> ''email''"
    by (simp add: field_names_def)
  have a: "\<exists>u. is_staff u = PBool True \<and> is_superuser u = PBool True \<and>
      create_user table_framework (PStr ''bob'') PNone PNone
        [(''is_staff'', PBool True), (''is_superuser'', PBool True)] [alice_row]
      = table_save u [alice_row]"
    using create_user_keeps_flags [OF t n k, of table_framework PNone "[alice_row]"]
    by (simp add: kwarg_def table_framework_def)
  have b: "map is_staff (snd (create_user table_framework (PStr ''bob'') PNone PNone
        [(''is_staff'', PBool True), (''is_superuser'', PBool True)] [alice_row]))
     = [PBool False, PBool True]"
    by code_simp
  have c: "map is_superuser (snd (create_user table_framework (PStr ''bob'') PNone PNone
        [(''is_staff'', PBool True), (''is_superuser'', PBool True)] [alice_row]))
     = [PBool False, PBool True]"
    by code_simp
  from t n a b c show ?thesis by simp
qed

text \<open>
  C5, as the code has it: creating a user with username \<^verbatim>\<open>alice\<close> and email
  \<^verbatim>\<open>Alice@EXAMPLE.com\<close> saves a record whose email is \<^verbatim>\<open>Alice@example.com\<close> (the local
  part kept, the domain lower-cased); the record has no field \<^verbatim>\<open>email_lower\<close>.
\<close>

theorem create_user_normalizes_email:
  "\<exists>u. email u = PStr ''Alice@example.com'' \<and> user_field u ''email_lower'' = None \<and>
     create_user fw (PStr ''alice'') (PStr ''Alice@EXAMPLE.com'') pw [] db = save fw u db"
proof -
  let ?extra =
    "setdefault (setdefault [] ''is_staff'' (PBool False)) ''is_superuser'' (PBool False)"
  have keys: "\<forall>k \<in> fst ` set ?extra.
      k \<in> set (''pk'' # field_names) \<and> k \<noteq> ''username'' \<and> k \<noteq> ''email''"
    by (simp add: setdefault_def field_names_def)
  have run: "create_user fw (PStr ''alice'') (PStr ''Alice@EXAMPLE.com'') pw [] db
      = private_create_user fw (PStr ''alice'') (PStr ''Alice@EXAMPLE.com'') pw ?extra db"
    by (simp add: create_user_def Let_def)
  from private_create_user_reaches_save
         [OF _ normalize_alice keys, of "PStr ''alice''" fw pw db] run
  show ?thesis by (auto simp: user_field_email_lower)
qed

theorem create_user_normalizes_email_witness:
  "create_user table_framework (PStr ''alice'') (PStr ''Alice@EXAMPLE.com'') PNone [] []
     = (Inr alice_row, [alice_row]) \<and>
   (\<exists>u. email u = PStr ''Alice@example.com'' \<and> user_field u ''email_lower'' = None \<and>
     create_user table_framework (PStr ''alice'') (PStr ''Alice@EXAMPLE.com'') PNone [] []
       = table_save u [])"
proof -
  have "create_user table_framework (PStr ''alice'') (PStr ''Alice@EXAMPLE.com'') PNone [] []
     = (Inr alice_row, [alice_row])"
    by code_simp
  moreover have "\<exists>u. email u = PStr ''Alice@example.com'' \<and>
     user_field u ''email_lower'' = None \<and>
     create_user table_framework (PStr ''alice'') (PStr ''Alice@EXAMPLE.com'') PNone [] []
       = table_save u []"
    using create_user_normalizes_email [of table_framework PNone "[]"]
    by (simp add: table_framework_def)
  ultimately show ?thesis by simp
qed

text \<open>
  C5 as stated fails: the record stored for \<^verbatim>\<open>alice\<close> is \<open>alice_row\<close>, and its
  \<^verbatim>\<open>email_lower\<close> is not \<^verbatim>\<open>alice@example.com\<close>, the model having no such field.
\<close>

theorem create_user_email_lower_counterexample:
  "create_user table_framework (PStr ''alice'') (PStr ''Alice@EXAMPLE.com'') PNone [] []
     = (Inr alice_row, [alice_row]) \<and>
   user_field alice_row ''email_lower'' \<noteq> Some (PStr ''alice@example.com'')"
proof -
  have "create_user table_framework (PStr ''alice'') (PStr ''Alice@EXAMPLE.com'') PNone [] []
     = (Inr alice_row, [alice_row])"
    by code_simp
  then show ?thesis by (simp add: user_field_def)
qed

section \<open>Looking users up by permission\<close>




text \<open>
  C7: a backend argument that is neither None nor a string raises TypeError, whatever
  \<open>get_backends\<close> and \<open>load_backend\<close> would return or raise: neither is consulted.
\<close>

theorem with_perm_non_string_backend:
  "backend_arg \<noteq> PNone \<Longrightarrow> (\<forall>s. backend_arg \<noteq> PStr s) \<Longrightarrow>
     with_perm reg perm active incl backend_arg obj = Inl TypeError"
  by (cases backend_arg) (simp_all add: with_perm_def)

theorem with_perm_non_string_backend_witness:
  "with_perm \<lparr> get_backends = Inl (FrameworkError ''ImproperlyConfigured''),
       load_backend = (\<lambda>path. Inl (FrameworkError ''ImportError'')) \<rparr>
     (PStr ''app.change'') (PBool True) (PBool True) (PInt 5) PNone = Inl TypeError"
  using with_perm_non_string_backend [of "PInt 5"] by simp

text \<open>
  C8: when the selected backend (the only configured one, or the one loaded from the
  path given) has no \<^verbatim>\<open>with_perm\<close> attribute, the call returns the empty result set and
  raises nothing.
\<close>

theorem with_perm_without_lookup:
  "(backend_arg = PNone \<and> get_backends reg = Inr [(b, path)]) \<or>
   (backend_arg = PStr path \<and> load_backend reg path = Inr b) \<Longrightarrow>
   with_perm_attr b = None \<Longrightarrow>
   with_perm reg perm active incl backend_arg obj = Inr []"
  by (auto simp: with_perm_def)

theorem with_perm_without_lookup_witness:
  "with_perm \<lparr> get_backends =
         Inr [(\<lparr> backend_name = ''iap'', with_perm_attr = None \<rparr>, ''iap.Backend'')],
       load_backend = (\<lambda>path. Inl (FrameworkError ''ImportError'')) \<rparr>
     (PStr ''app.change'') (PBool True) (PBool True) PNone PNone = Inr [] \<and>
   with_perm \<lparr> get_backends = Inr [],
       load_backend = (\<lambda>path. Inr \<lparr> backend_name = path, with_perm_attr = None \<rparr>) \<rparr>
     (PStr ''app.change'') (PBool True) (PBool True) (PStr ''iap.Backend'') PNone = Inr []"
proof -
  let ?b = "\<lparr> backend_name = ''iap'', with_perm_attr = None \<rparr>"
  have a: "with_perm \<lparr> get_backends = Inr [(?b, ''iap.Backend'')],
       load_backend = (\<lambda>path. Inl (FrameworkError ''ImportError'')) \<rparr>
     (PStr ''app.change'') (PBool True) (PBool True) PNone PNone = Inr []"
    using with_perm_without_lookup [of PNone "\<lparr> get_backends = Inr [(?b, ''iap.Backend'')],
       load_backend = (\<lambda>path. Inl (FrameworkError ''ImportError'')) \<rparr>" ?b "''iap.Backend''"]
    by simp
  have b: "with_perm \<lparr> get_backends = Inr [],
       load_backend = (\<lambda>path. Inr \<lparr> backend_name = path, with_perm_attr = None \<rparr>) \<rparr>
     (PStr ''app.change'') (PBool True) (PBool True) (PStr ''iap.Backend'') PNone = Inr []"
    using with_perm_without_lookup [of "PStr ''iap.Backend''" "\<lparr> get_backends = Inr [],
       load_backend = (\<lambda>path. Inr \<lparr> backend_name = path, with_perm_attr = None \<rparr>) \<rparr>"
       "\<lparr> backend_name = ''iap.Backend'', with_perm_attr = None \<rparr>" "''iap.Backend''"]
    by simp
  from a b show ?thesis by simp
qed

section \<open>Properties of AnonymousUser\<close>

text \<open>
  C4, as the code has it: for an AnonymousUser, \<open>has_perm\<close> and \<open>has_module_perms\<close> are
  false for every argument, and \<open>has_perms\<close> is false for every list of permissions that
  is not empty; for the empty list it is true (\<^verbatim>\<open>all\<close> of no element).
\<close>

theorem anonymous_has_no_permission:
  "\<not> has_perm a perm obj \<and> (perm_list \<noteq> [] \<longrightarrow> \<not> has_perms a perm_list obj) \<and>
   has_perms a [] obj \<and> \<not> has_module_perms a module"
  by (cases perm_list) (simp_all add: has_perm_def has_perms_def has_module_perms_def)

theorem anonymous_has_no_permission_witness:
  "\<not> has_perm (AnonymousUser 0) (PStr ''app.add'') PNone \<and>
   \<not> has_perms (AnonymousUser 0) [PStr ''app.add'', PStr ''app.change''] PNone \<and>
   \<not> has_module_perms (AnonymousUser 0) (PStr ''app'')"
  using anonymous_has_no_permission
    [of "AnonymousUser 0" "PStr ''app.add''" PNone "[PStr ''app.add'', PStr ''app.change'']"
        "PStr ''app''"]
  by simp

text \<open>C4 as stated fails on the empty list of permissions: \<open>has_perms\<close> is true there.\<close>

theorem has_perms_empty_list_counterexample:
  "has_perms (AnonymousUser 0) [] PNone"
  by (simp add: has_perms_def)

text \<open>
  C9: any two AnonymousUser instances are equal and have the same hash, and
  \<^verbatim>\<open>int(...)\<close> of an instance raises TypeError.
\<close>

theorem anonymous_eq_hash_int:
  "anon_eq a (Anonymous b) \<and> anon_hash a = anon_hash b \<and> anon_int a = Inl TypeError"
  by (simp add: anon_eq_def anon_hash_def anon_int_def)

section \<open>Properties of OAuthUserSession\<close>

text \<open>
  C3, as the code has it: \<open>is_valid\<close> returns None for every session, whatever its
  \<^verbatim>\<open>expires_at\<close> and its tokens are.
\<close>

theorem is_valid_returns_none: "is_valid s = PNone"
  by (simp add: is_valid_def)

text \<open>
  C3 as stated fails: for a session that expired in 1970 and has all its tokens,
  \<open>is_valid\<close> does not return the boolean False.
\<close>

theorem is_valid_expired_counterexample:
  "is_valid \<lparr> session_user = PInt 1, authorization_code = ''code'',
      access_token = ''ya29.token'', refresh_token = ''1//refresh'', id_token = ''eyJ.id'',
      token_type = ''Bearer'', expires_at = ''1970-01-01T00:00:00'', expires_in = ''3600'',
      scopes = [''email''], token = PNone \<rparr> \<noteq> PBool False"
  by (simp add: is_valid_def)

end
